theory Spec2Isabelle
  imports Complex_Main
begin

section \<open>Strings, characters and numbers of the analyzer\<close>

text \<open>
  The analyzer is the class \<open>SEOContentAnalyzer\<close>. A string is a list of code units;
  this development covers code units below 256 (ASCII and Latin-1), which is what the type
  \<open>char\<close> holds. Counts are natural numbers. Numbers that the source computes with
  fractional parts are reals; the operations that give the keyword density are rounded to
  binary64 as the source's arithmetic rounds them (\<open>fl\<close> below), the other quotients
  and products are exact.
\<close>

definition is_space :: "char \<Rightarrow> bool" where
  \<comment> \<open>the class \<open>\s\<close>, which is also the set that \<open>trim\<close> removes\<close>
  "is_space c = (c \<in> set [CHR 0x09, CHR 0x0A, CHR 0x0B, CHR 0x0C, CHR 0x0D, CHR 0x20, CHR 0xA0])"

definition is_lt :: "char \<Rightarrow> bool" where
  \<comment> \<open>line terminators: what \<open>.\<close> refuses and where \<open>^\<close> and \<open>$\<close> anchor under the flag m\<close>
  "is_lt c = (c \<in> set [CHR 0x0A, CHR 0x0D])"

definition is_lower_az :: "char \<Rightarrow> bool" where
  \<comment> \<open>the class \<open>[a-z]\<close>\<close>
  "is_lower_az c = (97 \<le> (of_char c :: nat) \<and> (of_char c :: nat) \<le> 122)"

definition is_digit :: "char \<Rightarrow> bool" where
  \<comment> \<open>the class \<open>\d\<close>\<close>
  "is_digit c = (48 \<le> (of_char c :: nat) \<and> (of_char c :: nat) \<le> 57)"

definition is_word_char :: "char \<Rightarrow> bool" where
  \<comment> \<open>the class \<open>\w\<close>\<close>
  "is_word_char c =
     (is_lower_az c \<or> (65 \<le> (of_char c :: nat) \<and> (of_char c :: nat) \<le> 90)
      \<or> is_digit c \<or> c = CHR ''_'')"

definition lower_char :: "char \<Rightarrow> char" where
  "lower_char c =
     (let n = (of_char c :: nat)
      in if (65 \<le> n \<and> n \<le> 90) \<or> (192 \<le> n \<and> n \<le> 222 \<and> n \<noteq> 215)
         then char_of (n + 32) else c)"

definition toLowerCase :: "string \<Rightarrow> string" where
  "toLowerCase s = map lower_char s"

definition trim :: "string \<Rightarrow> string" where
  "trim s = rev (dropWhile is_space (rev (dropWhile is_space s)))"

definition js_round :: "real \<Rightarrow> int" where
  \<comment> \<open>\<open>Math.round\<close>: the nearest integer, a tie going up\<close>
  "js_round x = \<lfloor>x + 1 / 2\<rfloor>"

text \<open>
  Rounding to binary64. A positive number is scaled by powers of two into the range from
  \<open>2^52\<close> to \<open>2^53\<close> (the exponent does not go below that of the subnormal numbers),
  rounded to the nearest integer, a tie going to the even one, and scaled back. The fuel of
  \<open>scale\<close> is more than any number below \<open>2^1024\<close> needs; overflow is not modelled.
\<close>

definition round_even :: "real \<Rightarrow> int" where
  "round_even x =
     (let f = \<lfloor>x\<rfloor>; r = x - real_of_int f
      in if r < 1 / 2 then f else if 1 / 2 < r then f + 1 else if even f then f else f + 1)"

fun scale :: "nat \<Rightarrow> real \<Rightarrow> int \<Rightarrow> real \<times> int" where
  "scale 0 x e = (x, e)"
| "scale (Suc k) x e =
     (if x < 2 ^ 52 \<and> - 1074 < e then scale k (2 * x) (e - 1)
      else if 2 ^ 53 \<le> x then scale k (x / 2) (e + 1)
      else (x, e))"

definition pow2 :: "int \<Rightarrow> real" where
  "pow2 e = (if 0 \<le> e then 2 ^ nat e else 1 / 2 ^ nat (- e))"

definition fl_pos :: "real \<Rightarrow> real" where
  "fl_pos x = (case scale 1200 x 0 of (m, e) \<Rightarrow> real_of_int (round_even m) * pow2 e)"

definition fl :: "real \<Rightarrow> real" where
  \<comment> \<open>the binary64 number nearest to \<open>x\<close>\<close>
  "fl x = (if x = 0 then 0 else if x < 0 then - fl_pos (- x) else fl_pos x)"

fun is_infix :: "string \<Rightarrow> string \<Rightarrow> bool" where
  \<comment> \<open>\<open>is_infix p s\<close> is \<open>s.includes(p)\<close>\<close>
  "is_infix p [] = (p = [])"
| "is_infix p (c # cs) = (p = take (length p) (c # cs) \<or> is_infix p cs)"

fun ends_with :: "string \<Rightarrow> string \<Rightarrow> bool" where
  \<comment> \<open>\<open>ends_with s p\<close> is \<open>s.endsWith(p)\<close>\<close>
  "ends_with s p = (length p \<le> length s \<and> drop (length s - length p) s = p)"

section \<open>Regular expressions by backtracking\<close>

text \<open>
  The fragment of the pattern language that the analyzer's patterns use. A matcher state
  is the text before the current position (reversed), the text after it, and the groups
  captured so far. \<open>ms r st\<close> lists every way in which \<open>r\<close> matches at \<open>st\<close>, in the
  order in which the backtracking matcher tries them (a greedy repetition tries the
  longest run first), so the head of the list is the match that is reported.
\<close>

datatype re =
    Atom "char \<Rightarrow> bool"
  | Rep nat "nat option" "char \<Rightarrow> bool"
  | Bol
  | Eol
  | Wb
  | Grp re
  | Eps
  | Cat re re

type_synonym mstate = "string \<times> string \<times> string list"

definition at_word :: "string \<Rightarrow> bool" where
  "at_word s = (case s of [] \<Rightarrow> False | c # _ \<Rightarrow> is_word_char c)"

definition at_lt :: "string \<Rightarrow> bool" where
  "at_lt s = (case s of [] \<Rightarrow> True | c # _ \<Rightarrow> is_lt c)"

fun ms :: "re \<Rightarrow> mstate \<Rightarrow> mstate list" where
  "ms (Atom p) (b, a, g) =
     (case a of [] \<Rightarrow> [] | c # cs \<Rightarrow> if p c then [(c # b, cs, g)] else [])"
| "ms (Rep lo hi p) (b, a, g) =
     (let run = length (takeWhile p a);
          top = (case hi of None \<Rightarrow> run | Some h \<Rightarrow> min h run)
      in map (\<lambda>k. (rev (take k a) @ b, drop k a, g)) (rev [lo ..< Suc top]))"
| "ms Bol (b, a, g) = (if at_lt b then [(b, a, g)] else [])"
| "ms Eol (b, a, g) = (if at_lt a then [(b, a, g)] else [])"
| "ms Wb (b, a, g) = (if at_word b = at_word a then [] else [(b, a, g)])"
| "ms (Grp r) (b, a, g) =
     map (\<lambda>(b', a', g'). (b', a', g' @ [rev (take (length b' - length b) b')]))
         (ms r (b, a, g))"
| "ms Eps st = [st]"
| "ms (Cat r s) st = concat (map (ms s) (ms r st))"

definition cats :: "re list \<Rightarrow> re" where
  "cats rs = foldr Cat rs Eps"

record rmatch =
  m_index :: nat
  m_text :: string
  m_groups :: "string list"

definition exec_at :: "re \<Rightarrow> string \<Rightarrow> string \<Rightarrow> (rmatch \<times> string \<times> string) option" where
  \<comment> \<open>one attempt at the current position: the match and the state after it\<close>
  "exec_at r b a =
     (case ms r (b, a, []) of
        [] \<Rightarrow> None
      | (b', a', g) # _ \<Rightarrow>
          Some (\<lparr>m_index = length b, m_text = rev (take (length b' - length b) b'),
                 m_groups = g\<rparr>, b', a'))"

function matchAll_from :: "re \<Rightarrow> string \<Rightarrow> string \<Rightarrow> rmatch list" where
  "matchAll_from r b [] = (case exec_at r b [] of None \<Rightarrow> [] | Some (m, _, _) \<Rightarrow> [m])"
| "matchAll_from r b (c # cs) =
     (case exec_at r b (c # cs) of
        None \<Rightarrow> matchAll_from r (c # b) cs
      | Some (m, b', a') \<Rightarrow>
          m # (if length a' < length (c # cs) then matchAll_from r b' a'
               else matchAll_from r (c # b) cs))"
  by pat_completeness auto
termination
  by (relation "measure (\<lambda>(r, b, a). length a)") auto

definition matchAll :: "re \<Rightarrow> string \<Rightarrow> rmatch list" where
  \<comment> \<open>every match of a pattern with the flag g, left to right, none overlapping\<close>
  "matchAll r s = matchAll_from r [] s"

function split_from :: "re \<Rightarrow> string \<Rightarrow> string \<Rightarrow> string \<Rightarrow> string list" where
  "split_from r b piece [] = [rev piece]"
| "split_from r b piece (c # cs) =
     (case exec_at r b (c # cs) of
        None \<Rightarrow> split_from r (c # b) (c # piece) cs
      | Some (m, b', a') \<Rightarrow>
          if length a' < length (c # cs) then rev piece # split_from r b' [] a'
          else split_from r (c # b) (c # piece) cs)"
  by pat_completeness auto
termination
  by (relation "measure (\<lambda>(r, b, piece, a). length a)") auto

definition split_re :: "re \<Rightarrow> string \<Rightarrow> string list" where
  \<comment> \<open>\<open>s.split(r)\<close> for a pattern that matches no empty string\<close>
  "split_re r s = split_from r [] [] s"

definition nonempty :: "string \<Rightarrow> bool" where
  "nonempty w = (0 < length w)"

definition nonblank :: "string \<Rightarrow> bool" where
  "nonblank w = (0 < length (trim w))"

section \<open>Text metrics\<close>

record wordStats =
  words :: nat
  characters :: nat
  sentences :: nat
  paragraphs :: nat
  readingTime :: real

definition re_spaces :: re where
  \<comment> \<open>\<open>/\s+/\<close>\<close>
  "re_spaces = Rep 1 None is_space"

definition re_sentence_end :: re where
  \<comment> \<open>\<open>/[.!?]+/\<close>\<close>
  "re_sentence_end = Rep 1 None (\<lambda>c. c \<in> set ''.!?'')"

definition re_blank_line :: re where
  \<comment> \<open>\<open>/\n\s*\n/\<close>\<close>
  "re_blank_line =
     cats [Atom (\<lambda>c. c = CHR 0x0A), Rep 0 None is_space, Atom (\<lambda>c. c = CHR 0x0A)]"

definition count_words :: "string \<Rightarrow> nat" where
  "count_words text = length (filter nonempty (split_re re_spaces text))"

definition reading_time :: "nat \<Rightarrow> real" where
  \<comment> \<open>\<open>Math.round((words / 238) * 1.1 * 10) / 10\<close>\<close>
  "reading_time w = real_of_int (js_round ((real w / 238) * 1.1 * 10)) / 10"

definition calculateWordStats :: "string \<Rightarrow> wordStats" where
  "calculateWordStats content =
     (let text = trim content
      in if text = [] then
           \<lparr>words = 0, characters = 0, sentences = 0, paragraphs = 0, readingTime = 0\<rparr>
         else
           (let w = count_words text
            in \<lparr>words = w,
                characters = length text,
                sentences = length (filter nonblank (split_re re_sentence_end text)),
                paragraphs = length (filter nonblank (split_re re_blank_line text)),
                readingTime = reading_time w\<rparr>))"

section \<open>Syllables\<close>

definition is_vowel :: "char \<Rightarrow> bool" where
  \<comment> \<open>the class \<open>[aeiouy]\<close>\<close>
  "is_vowel c = (c \<in> set ''aeiouy'')"

definition strip_suffix :: "string \<Rightarrow> string" where
  \<comment> \<open>\<open>word.replace(/(ed|es|s)$/, '')\<close>: the leftmost match is removed, so a final
      \<open>ed\<close> or \<open>es\<close> goes before a final \<open>s\<close> alone\<close>
  "strip_suffix w =
     (if ends_with w ''ed'' \<or> ends_with w ''es'' then take (length w - 2) w
      else if ends_with w ''s'' then take (length w - 1) w
      else w)"

fun vowel_groups :: "char option \<Rightarrow> bool \<Rightarrow> nat \<Rightarrow> string \<Rightarrow> nat" where
  \<comment> \<open>the loop over the letters: the letter before, \<open>previousWasVowel\<close>, \<open>syllables\<close>;
      a \<open>y\<close> that starts the word or follows a vowel letter is skipped by \<open>continue\<close>,
      which leaves \<open>previousWasVowel\<close> as it was\<close>
  "vowel_groups prev pwv syl [] = syl"
| "vowel_groups prev pwv syl (c # cs) =
     (if c = CHR ''y'' \<and> (case prev of None \<Rightarrow> True | Some p \<Rightarrow> is_vowel p)
      then vowel_groups (Some c) pwv syl cs
      else vowel_groups (Some c) (is_vowel c)
             (if is_vowel c \<and> \<not> pwv then syl + 1 else syl) cs)"

definition silent_e :: "string \<Rightarrow> nat \<Rightarrow> nat" where
  "silent_e w syl =
     (if ends_with w ''e'' \<and> 1 < syl \<and> 2 < length w \<and> \<not> is_vowel (w ! (length w - 2))
      then syl - 1 else syl)"

definition final_le :: "string \<Rightarrow> nat \<Rightarrow> nat" where
  "final_le w syl =
     (if ends_with w ''le'' \<and> 2 < length w \<and> \<not> is_vowel (w ! (length w - 3))
      then syl + 1 else syl)"

definition countWordSyllables :: "string \<Rightarrow> nat" where
  "countWordSyllables word0 =
     (let word = toLowerCase (filter is_lower_az word0)
      in if length word = 0 then 0
         else if length word \<le> 3 then 1
         else (let w = strip_suffix word
               in max 1 (final_le w (silent_e w (vowel_groups None False 0 w)))))"

definition content_tokens :: "string \<Rightarrow> string list" where
  \<comment> \<open>\<open>this.content.toLowerCase().split(/\s+/).filter(word => word.length > 0)\<close>\<close>
  "content_tokens content = filter nonempty (split_re re_spaces (toLowerCase content))"

definition countSyllables :: "string \<Rightarrow> nat" where
  "countSyllables content = sum_list (map countWordSyllables (content_tokens content))"

definition countPolysyllabicWords :: "string \<Rightarrow> nat" where
  "countPolysyllabicWords content =
     length (filter (\<lambda>w. 3 \<le> countWordSyllables w) (content_tokens content))"

section \<open>Readability\<close>

record readabilityScores =
  fleschEase :: real
  fleschKincaid :: real
  smogIndex :: real
  fleschEaseGrade :: string
  fleschKincaidGrade :: string
  smogGrade :: string

fun show_nat :: "nat \<Rightarrow> string" where
  "show_nat n =
     (if n < 10 then [char_of (48 + n)] else show_nat (n div 10) @ [char_of (48 + n mod 10)])"

definition show_int :: "int \<Rightarrow> string" where
  "show_int i = (if i < 0 then CHR ''-'' # show_nat (nat (- i)) else show_nat (nat i))"

definition getFleschEaseGrade :: "real \<Rightarrow> string" where
  "getFleschEaseGrade score =
     (if 90 \<le> score then ''Very Easy (5th grade)''
      else if 80 \<le> score then ''Easy (6th grade)''
      else if 70 \<le> score then ''Fairly Easy (7th grade)''
      else if 60 \<le> score then ''Standard (8th-9th grade)''
      else if 50 \<le> score then ''Fairly Difficult (10th-12th grade)''
      else if 30 \<le> score then ''Difficult (College)''
      else ''Very Difficult (Graduate)'')"

definition getGradeDescription :: "real \<Rightarrow> string" where
  "getGradeDescription grade =
     (let gradeLevel = js_round grade
      in if gradeLevel \<le> 6 then show_int gradeLevel @ ''th grade''
         else if gradeLevel \<le> 12 then show_int gradeLevel @ ''th grade''
         else if gradeLevel \<le> 16 then
           ''College level ('' @ show_int (gradeLevel - 12) @ '' years)''
         else ''Graduate level'')"

definition round1 :: "real \<Rightarrow> real" where
  \<comment> \<open>\<open>Math.round(x * 10) / 10\<close>\<close>
  "round1 x = real_of_int (js_round (x * 10)) / 10"

definition zero_scores :: "string \<Rightarrow> readabilityScores" where
  "zero_scores label =
     \<lparr>fleschEase = 0, fleschKincaid = 0, smogIndex = 0,
      fleschEaseGrade = label, fleschKincaidGrade = label, smogGrade = label\<rparr>"

definition calculateReadabilityScores :: "string \<Rightarrow> readabilityScores" where
  "calculateReadabilityScores content =
     (let ws = calculateWordStats content; w = words ws; s = sentences ws
      in if w = 0 \<or> s = 0 then zero_scores ''N/A''
         else
           (let syllables = countSyllables content;
                polysyllabicWords = countPolysyllabicWords content
            in if syllables = 0 then zero_scores ''No text to analyze''
               else
                 (let wordsPerSentence = (if 0 < s then real w / real s else 0);
                      syllablesPerWord = (if 0 < w then real syllables / real w else 0);
                      ease = max 0 (min 100
                               (206.835 - 1.015 * wordsPerSentence - 84.6 * syllablesPerWord));
                      fk = max 0 (0.39 * wordsPerSentence + 11.8 * syllablesPerWord - 15.59);
                      smog = (if 30 \<le> s
                              then 1.043 * sqrt (real (polysyllabicWords * 30) / real s) + 3.1291
                              else 1.043 * sqrt (max 0 (real polysyllabicWords)) + 3.1291)
                  in \<lparr>fleschEase = round1 ease,
                      fleschKincaid = round1 fk,
                      smogIndex = round1 smog,
                      fleschEaseGrade = getFleschEaseGrade ease,
                      fleschKincaidGrade = getGradeDescription fk,
                      smogGrade = getGradeDescription smog\<rparr>)))"

section \<open>Headings\<close>

record heading =
  h_level :: nat
  h_text :: string

record headingStructure =
  totalHeadings :: nat
  headings :: "heading list"
  headingCounts :: "nat \<Rightarrow> nat"
  hasH1 :: bool
  multipleH1 :: bool
  structureScore :: int
  issues :: "string list"
  headingCount :: nat
  h1Text :: string

definition ci :: "char \<Rightarrow> char \<Rightarrow> bool" where
  \<comment> \<open>a literal character under the flag i\<close>
  "ci k c = (lower_char c = lower_char k)"

definition re_markdown :: re where
  \<comment> \<open>\<open>/^#{1,6}\s+(.+)$/gm\<close>\<close>
  "re_markdown =
     cats [Bol, Rep 1 (Some 6) (\<lambda>c. c = CHR ''#''), Rep 1 None is_space,
           Grp (Rep 1 None (\<lambda>c. \<not> is_lt c)), Eol]"

definition re_html :: re where
  \<comment> \<open>\<open>/<h([1-6])(?:[^>]*)>([^<]+)<\/h[1-6]>/gi\<close>\<close>
  "re_html =
     cats [Atom (\<lambda>c. c = CHR ''<''), Atom (ci CHR ''h''),
           Grp (Atom (\<lambda>c. c \<in> set ''123456'')),
           Rep 0 None (\<lambda>c. c \<noteq> CHR ''>''), Atom (\<lambda>c. c = CHR ''>''),
           Grp (Rep 1 None (\<lambda>c. c \<noteq> CHR ''<'')),
           Atom (\<lambda>c. c = CHR ''<''), Atom (\<lambda>c. c = CHR ''/''), Atom (ci CHR ''h''),
           Atom (\<lambda>c. c \<in> set ''123456''), Atom (\<lambda>c. c = CHR ''>'')]"

definition headingMatches :: "string \<Rightarrow> rmatch list" where
  \<comment> \<open>the markdown matches, then the markup matches\<close>
  "headingMatches content = matchAll re_markdown content @ matchAll re_html content"

definition group :: "rmatch \<Rightarrow> nat \<Rightarrow> string" where
  \<comment> \<open>\<open>match[i]\<close> for \<open>i\<close> from 1\<close>
  "group m i = (if i - 1 < length (m_groups m) then m_groups m ! (i - 1) else [])"

definition parse_digit :: "string \<Rightarrow> nat" where
  \<comment> \<open>\<open>parseInt\<close> on the one digit that the first group of the markup pattern holds\<close>
  "parse_digit s = (case s of [] \<Rightarrow> 0 | c # _ \<Rightarrow> of_char c - 48)"

definition heading_of :: "rmatch \<Rightarrow> heading" where
  "heading_of m =
     (if take 1 (m_text m) = ''#''
      then \<lparr>h_level = length (takeWhile (\<lambda>c. c = CHR ''#'') (m_text m)),
            h_text = take 100 (trim (group m 1))\<rparr>
      else \<lparr>h_level = parse_digit (group m 1), h_text = take 100 (trim (group m 2))\<rparr>)"

fun tally :: "heading list \<Rightarrow> (nat \<Rightarrow> nat) \<Rightarrow> (nat \<Rightarrow> nat)" where
  "tally [] counts = counts"
| "tally (h # hs) counts = tally hs (counts(h_level h := counts (h_level h) + 1))"

fun hierarchy :: "heading list \<Rightarrow> nat \<Rightarrow> nat \<Rightarrow> nat" where
  \<comment> \<open>the loop over the headings: \<open>previousLevel\<close>, \<open>hierarchyIssues\<close>\<close>
  "hierarchy [] previousLevel hierarchyIssues = hierarchyIssues"
| "hierarchy (h # hs) previousLevel hierarchyIssues =
     hierarchy hs (h_level h)
       (if previousLevel + 1 < h_level h then hierarchyIssues + 1 else hierarchyIssues)"

definition analyzeHeadingStructure :: "string \<Rightarrow> headingStructure" where
  "analyzeHeadingStructure content =
     (let hs = map heading_of (headingMatches content);
          counts = tally hs (\<lambda>l. 0);
          has1 = (0 < counts 1);
          multi1 = (1 < counts 1);
          score1 = (if has1 then 100 else 100 - 30);
          issues1 = (if has1 then [] else [''Missing H1 tag'']);
          score2 = (if multi1 then score1 - 20 else score1);
          issues2 = (if multi1 then issues1 @ [''Multiple H1 tags found''] else issues1);
          hierarchyIssues = hierarchy hs 0 0;
          score3 = (if 0 < hierarchyIssues then score2 - int hierarchyIssues * 10 else score2);
          issues3 = (if 0 < hierarchyIssues
                     then issues2 @ [''Heading hierarchy issues detected''] else issues2)
      in \<lparr>totalHeadings = length hs,
          headings = hs,
          headingCounts = counts,
          hasH1 = has1,
          multipleH1 = multi1,
          structureScore = max 0 score3,
          issues = issues3,
          headingCount = length hs,
          h1Text = (if has1
                    then (case filter (\<lambda>h. h_level h = 1) hs of [] \<Rightarrow> [] | h # _ \<Rightarrow> h_text h)
                    else [])\<rparr>)"

section \<open>The analyzer's state\<close>

record keywordAnalysis =
  primaryKeywordDensity :: real
  primaryKeywordCount :: nat
  optimalRange :: string
  status :: string
  topKeywordsLength :: nat
  semanticKeywords :: "string list"

record seoScore =
  overall :: int
  contentQuality :: int
  technicalSEO :: int
  readability :: int
  userExperience :: int

record analysisResults =
  r_wordStats :: wordStats
  r_readabilityScores :: readabilityScores
  r_keywordAnalysis :: keywordAnalysis
  r_headingStructure :: headingStructure
  r_seoScore :: seoScore
  r_timestamp :: string

text \<open>
  The fields of \<open>this\<close> that the computation reads. \<open>analysisResults\<close> is \<open>None\<close> for
  the empty object that the constructor stores. Of \<open>topKeywords\<close> the computation reads the
  length only, which is what the model keeps.
\<close>

record analyzer =
  content :: string
  targetKeyword :: string
  metaDescription :: string
  analysisResults :: "analysisResults option"

definition initial :: analyzer where
  "initial = \<lparr>content = [], targetKeyword = [], metaDescription = [], analysisResults = None\<rparr>"

section \<open>Keywords\<close>

text \<open>
  The phrase pattern is built from the words of the keyword as they were typed:
  \<open>new RegExp(`\\b${keywordWords.join('\\s+')}\\b`, 'gi')\<close>, so a keyword is read as a
  pattern. The patterns that this theory builds itself are those whose words are made of
  ordinary characters and full stops (the pattern's any-character), each optionally
  followed by one greedy quantifier \<open>?\<close>, \<open>*\<close> or \<open>+\<close>. For a keyword with any other
  pattern syntax, what the pattern engine does is a parameter of the analysis: given the
  words of the keyword and the text, the number of matches of the pattern in the text, or
  the \<open>SyntaxError\<close> that \<open>new RegExp\<close> throws.
\<close>

datatype exn = SyntaxError

type_synonym regexp_engine = "string list \<Rightarrow> string \<Rightarrow> exn + nat"

definition pattern_atom :: "char \<Rightarrow> (char \<Rightarrow> bool) option" where
  "pattern_atom c =
     (if c = CHR ''.'' then Some (\<lambda>x. \<not> is_lt x)
      else if c \<in> set [CHR 0x5C, CHR ''^'', CHR ''$'', CHR ''*'', CHR ''+'', CHR ''?'',
                        CHR ''('', CHR '')'', CHR ''['', CHR '']'', CHR ''{'', CHR ''}'',
                        CHR ''|'']
      then None
      else Some (ci c))"

definition quantified :: "char \<Rightarrow> (char \<Rightarrow> bool) \<Rightarrow> re option" where
  "quantified q p =
     (if q = CHR ''?'' then Some (Rep 0 (Some 1) p)
      else if q = CHR ''*'' then Some (Rep 0 None p)
      else if q = CHR ''+'' then Some (Rep 1 None p)
      else None)"

fun pattern_word :: "string \<Rightarrow> re list option" where
  "pattern_word [] = Some []"
| "pattern_word [c] = map_option (\<lambda>p. [Atom p]) (pattern_atom c)"
| "pattern_word (c # q # cs) =
     (case pattern_atom c of
        None \<Rightarrow> None
      | Some p \<Rightarrow>
          (case quantified q p of
             Some r \<Rightarrow> map_option ((#) r) (pattern_word cs)
           | None \<Rightarrow> map_option ((#) (Atom p)) (pattern_word (q # cs))))"

fun pattern_words :: "string list \<Rightarrow> re list option" where
  \<comment> \<open>the words joined by \<open>\s+\<close>\<close>
  "pattern_words [] = Some []"
| "pattern_words [w] = pattern_word w"
| "pattern_words (w # ws) =
     (case pattern_word w of
        None \<Rightarrow> None
      | Some rs \<Rightarrow>
          (case pattern_words ws of
             None \<Rightarrow> None
           | Some rest \<Rightarrow> Some (rs @ [Rep 1 None is_space] @ rest)))"

definition phraseRegex :: "string list \<Rightarrow> re option" where
  "phraseRegex keywordWords =
     (case pattern_words keywordWords of
        None \<Rightarrow> None
      | Some rs \<Rightarrow> Some (cats ([Wb] @ rs @ [Wb])))"

definition normalize :: "string \<Rightarrow> string" where
  \<comment> \<open>\<open>.replace(/[^\w\s]/g, ' ')\<close>\<close>
  "normalize s = map (\<lambda>c. if is_word_char c \<or> is_space c then c else CHR '' '') s"

definition cleanedWords :: "string \<Rightarrow> string list" where
  "cleanedWords c = filter nonempty (split_re re_spaces (normalize (toLowerCase c)))"

definition stem :: "string \<Rightarrow> string" where
  \<comment> \<open>\<open>.replace(/(ing|ed|er|est|ly|s)$/, '')\<close>: the leftmost match is removed\<close>
  "stem w =
     (if ends_with w ''ing'' \<or> ends_with w ''est'' then take (length w - 3) w
      else if ends_with w ''ed'' \<or> ends_with w ''er'' \<or> ends_with w ''ly''
      then take (length w - 2) w
      else if ends_with w ''s'' then take (length w - 1) w
      else w)"

definition single_word_count :: "string \<Rightarrow> string list \<Rightarrow> nat" where
  "single_word_count keywordWord ws =
     (let targetWord = filter is_word_char keywordWord
      in length (filter (\<lambda>word.
           (let cleanWord = filter is_word_char word
            in cleanWord = targetWord
               \<or> (stem cleanWord = stem targetWord \<and> 2 < length (stem cleanWord)))) ws))"

definition word_matches :: "string list \<Rightarrow> string \<Rightarrow> bool" where
  \<comment> \<open>\<open>keywordWords.some(kw => word.includes(kw) || kw.includes(word))\<close>\<close>
  "word_matches keywordWords word =
     list_ex (\<lambda>kw. is_infix kw word \<or> is_infix word kw) keywordWords"

definition window_matches :: "string list \<Rightarrow> string list \<Rightarrow> bool" where
  \<comment> \<open>\<open>matchCount >= Math.ceil(keywordWords.length * 0.7)\<close>\<close>
  "window_matches keywordWords slice =
     (\<lceil>real (length keywordWords) * 0.7\<rceil> \<le> int (length (filter (word_matches keywordWords) slice)))"

definition partialMatches :: "string list \<Rightarrow> string list \<Rightarrow> nat" where
  \<comment> \<open>the loop \<open>for (let i = 0; i <= words.length - keywordWords.length; i++)\<close>\<close>
  "partialMatches keywordWords ws =
     length (filter (\<lambda>i. window_matches keywordWords (take (length keywordWords) (drop i ws)))
               [0 ..< length ws + 1 - length keywordWords])"

definition exactMatches :: "re \<Rightarrow> string \<Rightarrow> nat" where
  \<comment> \<open>\<open>(text.match(phraseRegex) || []).length\<close>\<close>
  "exactMatches r text = length (matchAll r text)"

definition keywordWords_of :: "string \<Rightarrow> string list" where
  "keywordWords_of kw = filter nonempty (split_re re_spaces (trim (toLowerCase kw)))"

definition countPrimaryKeyword :: "regexp_engine \<Rightarrow> string \<Rightarrow> string \<Rightarrow> exn + nat" where
  "countPrimaryKeyword rx c kw =
     (let keywordWords = keywordWords_of kw
      in if length keywordWords = 1
         then Inr (single_word_count (hd keywordWords) (cleanedWords c))
         else
           (let text = normalize (toLowerCase c);
                half = nat \<lfloor>real (partialMatches keywordWords (split_re re_spaces text)) * 0.5\<rfloor>
            in case phraseRegex keywordWords of
                 Some r \<Rightarrow> Inr (exactMatches r text + half)
               | None \<Rightarrow>
                   (case rx keywordWords text of
                      Inl e \<Rightarrow> Inl e
                    | Inr exact \<Rightarrow> Inr (exact + half))))"

definition totalWords :: "analyzer \<Rightarrow> nat" where
  \<comment> \<open>\<open>this.analysisResults?.wordStats?.words || this.content.trim().split(/\s+/)...length\<close>\<close>
  "totalWords st =
     (let cached = (case analysisResults st of None \<Rightarrow> 0 | Some r \<Rightarrow> words (r_wordStats r))
      in if cached \<noteq> 0 then cached else count_words (trim (content st)))"

definition density_status :: "real \<Rightarrow> string" where
  "density_status d =
     (if d = 0 then ''Keyword not found in content''
      else if d < 0.5 then ''Keyword density too low''
      else if d \<le> 2 then ''Optimal keyword density''
      else if d \<le> 3 then ''Keyword density slightly high''
      else ''Keyword density too high - risk of over-optimization'')"

definition stopWords :: "string list" where
  "stopWords =
     [''the'', ''a'', ''an'', ''and'', ''or'', ''but'', ''in'', ''on'', ''at'', ''to'', ''for'',
      ''of'', ''with'', ''by'', ''is'', ''are'', ''was'', ''were'', ''be'', ''been'', ''have'',
      ''has'', ''had'', ''do'', ''does'', ''did'', ''will'', ''would'', ''could'', ''should'',
      ''may'', ''might'', ''must'', ''can'', ''this'', ''that'', ''these'', ''those'', ''i'',
      ''you'', ''he'', ''she'', ''it'', ''we'', ''they'', ''me'', ''him'', ''her'', ''us'',
      ''them'', ''my'', ''your'', ''his'', ''her'', ''its'', ''our'', ''their'', ''mine'',
      ''yours'', ''hers'', ''ours'', ''theirs'', ''what'', ''where'', ''when'', ''why'', ''how'',
      ''which'', ''who'', ''whom'', ''whose'', ''if'', ''unless'', ''until'', ''while'',
      ''although'', ''though'', ''because'', ''since'', ''so'', ''than'', ''as'', ''like'',
      ''about'', ''above'', ''below'', ''up'', ''down'', ''out'', ''off'', ''over'', ''under'',
      ''again'', ''further'', ''then'', ''once'']"

definition topKeywordKeys :: "string list \<Rightarrow> string list" where
  \<comment> \<open>the keys of \<open>wordCounts\<close> in \<open>extractTopKeywords\<close>\<close>
  "topKeywordKeys ws =
     remdups (filter (\<lambda>cleanWord. 3 \<le> length cleanWord \<and> cleanWord \<notin> set stopWords
                                  \<and> \<not> list_all is_digit cleanWord)
                (map (\<lambda>word. toLowerCase (filter (\<lambda>c. is_lower_az (lower_char c) \<or> is_digit c) word)) ws))"

definition extractTopKeywordsLength :: "string list \<Rightarrow> nat" where
  \<comment> \<open>the length of \<open>Object.entries(wordCounts).sort(...).slice(0, 10)\<close>\<close>
  "extractTopKeywordsLength ws = min 10 (length (topKeywordKeys ws))"

definition extractSemanticKeywords :: "analyzer \<Rightarrow> string list" where
  "extractSemanticKeywords st =
     (let text = toLowerCase (content st)
      in if trim (targetKeyword st) \<noteq> [] then
           (let keyword = toLowerCase (targetKeyword st);
                patterns = [keyword @ ''s'', keyword @ ''ed'', keyword @ ''ing'', keyword @ ''er'',
                            keyword @ ''est'', ''best '' @ keyword, keyword @ '' guide'',
                            keyword @ '' tips'', ''how to '' @ keyword]
            in take 5 (filter (\<lambda>pattern. is_infix pattern text \<and> pattern \<noteq> keyword) patterns))
         else [])"

definition keyword_density :: "nat \<Rightarrow> nat \<Rightarrow> real" where
  \<comment> \<open>\<open>(primaryKeywordCount / totalWords) * 100\<close>, each operation rounded to binary64\<close>
  "keyword_density n t = fl (fl (real n / real t) * 100)"

definition round2 :: "real \<Rightarrow> real" where
  \<comment> \<open>\<open>Math.round(x * 100) / 100\<close>, the product and the quotient rounded to binary64\<close>
  "round2 x = fl (real_of_int (js_round (fl (x * 100))) / 100)"

definition analyzeKeywords :: "regexp_engine \<Rightarrow> analyzer \<Rightarrow> exn + keywordAnalysis" where
  "analyzeKeywords rx st =
     (if trim (content st) = [] then
        Inr \<lparr>primaryKeywordDensity = 0, primaryKeywordCount = 0, optimalRange = ''1-2%'',
             status = ''No content to analyze'', topKeywordsLength = 0, semanticKeywords = []\<rparr>
      else
        (let total = totalWords st;
             cleaned = cleanedWords (content st)
         in if trim (targetKeyword st) \<noteq> [] then
              (case countPrimaryKeyword rx (content st) (targetKeyword st) of
                 Inl e \<Rightarrow> Inl e
               | Inr n \<Rightarrow>
                   (let d = (if 0 < total then keyword_density n total else 0)
                    in Inr \<lparr>primaryKeywordDensity = round2 d, primaryKeywordCount = n,
                            optimalRange = ''0.5-2%'', status = density_status d,
                            topKeywordsLength = extractTopKeywordsLength cleaned,
                            semanticKeywords = extractSemanticKeywords st\<rparr>))
            else
              Inr \<lparr>primaryKeywordDensity = round2 0, primaryKeywordCount = 0,
                   optimalRange = ''0.5-2%'', status = ''Enter target keyword for analysis'',
                   topKeywordsLength = extractTopKeywordsLength cleaned,
                   semanticKeywords = extractSemanticKeywords st\<rparr>))"

section \<open>Scores\<close>

definition calculateContentQualityScore :: "wordStats \<Rightarrow> keywordAnalysis \<Rightarrow> int" where
  "calculateContentQualityScore ws ka =
     (let wordCount = words ws;
          s1 = (if 1500 \<le> wordCount \<and> wordCount \<le> 2500 then 25
                else if 1000 \<le> wordCount \<and> wordCount \<le> 3000 then 20
                else if 500 \<le> wordCount \<and> wordCount \<le> 4000 then 15
                else if 300 \<le> wordCount then 10
                else 0);
          density = primaryKeywordDensity ka;
          s2 = (if 0.8 \<le> density \<and> density \<le> 1.5 then 30
                else if 0.5 \<le> density \<and> density \<le> 2.5 then 25
                else if 0 < density \<and> density \<le> 3.5 then 15
                else if 3.5 < density then 5
                else 0);
          semanticCount = length (semanticKeywords ka);
          s3 = (if 10 \<le> semanticCount then 20
                else if 5 \<le> semanticCount then 15
                else if 2 \<le> semanticCount then 10
                else 0);
          s4 = (if 0 < sentences ws then
                  (let avgWordsPerSentence = real (words ws) / real (sentences ws)
                   in if 12 \<le> avgWordsPerSentence \<and> avgWordsPerSentence \<le> 18 then 15
                      else if 8 \<le> avgWordsPerSentence \<and> avgWordsPerSentence \<le> 25 then 12
                      else 8)
                else 0);
          uniqueKeywordRatio = real (topKeywordsLength ka) / max 1 (real (words ws) / 100);
          s5 = (if 0.8 \<le> uniqueKeywordRatio then 10
                else if 0.5 \<le> uniqueKeywordRatio then 7
                else 3)
      in min 100 (s1 + s2 + s3 + s4 + s5))"

definition calculateTechnicalSEOScore ::
  "analyzer \<Rightarrow> headingStructure \<Rightarrow> keywordAnalysis \<Rightarrow> int" where
  "calculateTechnicalSEOScore st hs ka =
     (let s1 = (if hasH1 hs then
                  15 + (if targetKeyword st \<noteq> [] \<and> h1Text hs \<noteq> []
                           \<and> is_infix (toLowerCase (targetKeyword st)) (toLowerCase (h1Text hs))
                        then 10 else 0)
                else 0);
          s2 = (if \<not> multipleH1 hs then 10 else 0);
          total = headingCount hs;
          s3 = (if 3 \<le> total \<and> total \<le> 10 then 10 else if 0 < total then 5 else 0);
          metaLength = length (metaDescription st);
          s4 = (if 120 \<le> metaLength \<and> metaLength \<le> 158 then
                  20 + (if targetKeyword st \<noteq> [] \<and> metaDescription st \<noteq> []
                           \<and> is_infix (toLowerCase (targetKeyword st))
                                 (toLowerCase (metaDescription st))
                        then 10 else 0)
                else if 100 \<le> metaLength \<and> metaLength \<le> 180 then 15
                else if 0 < metaLength then 5
                else 0);
          analysisFactors = [0 < primaryKeywordCount ka, 5 \<le> topKeywordsLength ka,
                             0 < length (trim (targetKeyword st)), 0 < metaLength,
                             hasH1 hs, 2 \<le> total];
          activeFactors = length (filter id analysisFactors);
          s5 = js_round ((real activeFactors / real (length analysisFactors)) * 30)
      in min 100 (s1 + s2 + s3 + s4 + s5))"

definition calculateReadabilityScore :: "readabilityScores \<Rightarrow> int" where
  "calculateReadabilityScore rs =
     (let fkGrade = fleschKincaid rs;
          s1 = (if 6 \<le> fkGrade \<and> fkGrade \<le> 8 then 40
                else if 5 \<le> fkGrade \<and> fkGrade \<le> 10 then 35
                else if 4 \<le> fkGrade \<and> fkGrade \<le> 12 then 25
                else 15);
          ease = fleschEase rs;
          s2 = (if 60 \<le> ease \<and> ease \<le> 80 then 30
                else if 50 \<le> ease \<and> ease \<le> 90 then 25
                else if 30 \<le> ease then 15
                else 5);
          readabilityConsistency = \<bar>fkGrade - smogIndex rs\<bar>;
          s3 = (if readabilityConsistency \<le> 2 then 30
                else if readabilityConsistency \<le> 4 then 20
                else 10)
      in min 100 (s1 + s2 + s3))"

definition calculateUserExperienceScore :: "wordStats \<Rightarrow> int" where
  "calculateUserExperienceScore ws =
     (let rt = readingTime ws;
          s1 = (if 3 \<le> rt \<and> rt \<le> 12 then 50
                else if 2 \<le> rt \<and> rt \<le> 20 then 40
                else if 1 \<le> rt then 25
                else 0);
          sentenceCount = sentences ws;
          wordCount = words ws;
          s2 = (if 0 < sentenceCount then
                  (let avgSentenceLength = real wordCount / real sentenceCount
                   in if avgSentenceLength \<le> 20 then 30
                      else if avgSentenceLength \<le> 25 then 20
                      else 10)
                else 0);
          s3 = (if 800 \<le> wordCount \<and> wordCount \<le> 3000 then 20
                else if 300 \<le> wordCount then 15
                else 5)
      in min 100 (s1 + s2 + s3))"

definition weighted :: "int \<Rightarrow> int \<Rightarrow> int \<Rightarrow> int \<Rightarrow> real" where
  "weighted cq tech rd ux =
     real_of_int cq * 0.35 + real_of_int tech * 0.30 + real_of_int rd * 0.20
     + real_of_int ux * 0.15"

definition calculateSEOScore ::
  "analyzer \<Rightarrow> wordStats \<Rightarrow> readabilityScores \<Rightarrow> keywordAnalysis \<Rightarrow> headingStructure
   \<Rightarrow> seoScore" where
  "calculateSEOScore st ws rs ka hs =
     (let cq = calculateContentQualityScore ws ka;
          tech = calculateTechnicalSEOScore st hs ka;
          rd = calculateReadabilityScore rs;
          ux = calculateUserExperienceScore ws;
          overallScore = js_round (weighted cq tech rd ux)
      in \<lparr>overall = min 100 (max 0 overallScore),
          contentQuality = js_round (real_of_int cq),
          technicalSEO = js_round (real_of_int tech),
          readability = js_round (real_of_int rd),
          userExperience = js_round (real_of_int ux)\<rparr>)"

section \<open>One analysis\<close>

text \<open>
  \<open>updateAnalysis\<close> computes the five results from the fields of \<open>this\<close> and stores them,
  with the time of the call, in \<open>analysisResults\<close>. For blank content it resets the display
  and leaves the fields as they are. The computation runs inside \<open>try\<close>: when building
  the phrase pattern throws, the \<open>catch\<close> logs the error and the fields stay as they are.
  \<open>analyze\<close> is what the input handlers do: set the three inputs, then run
  \<open>updateAnalysis\<close>.
\<close>

definition updateAnalysis :: "regexp_engine \<Rightarrow> analyzer \<Rightarrow> string \<Rightarrow> analyzer" where
  "updateAnalysis rx st now =
     (if trim (content st) = [] then st
      else
        (let ws = calculateWordStats (content st);
             rs = calculateReadabilityScores (content st)
         in case analyzeKeywords rx st of
              Inl e \<Rightarrow> st
            | Inr ka \<Rightarrow>
                (let hs = analyzeHeadingStructure (content st);
                     score = calculateSEOScore st ws rs ka hs
                 in st\<lparr>analysisResults :=
                         Some \<lparr>r_wordStats = ws, r_readabilityScores = rs,
                               r_keywordAnalysis = ka, r_headingStructure = hs,
                               r_seoScore = score, r_timestamp = now\<rparr>\<rparr>)))"

definition analyze ::
  "regexp_engine \<Rightarrow> analyzer \<Rightarrow> string \<Rightarrow> string \<Rightarrow> string \<Rightarrow> string \<Rightarrow> analyzer" where
  "analyze rx st c kw meta now =
     updateAnalysis rx (st\<lparr>content := c, targetKeyword := kw, metaDescription := meta\<rparr>) now"

definition reported_density :: "analyzer \<Rightarrow> real option" where
  \<comment> \<open>\<open>analysisResults.keywordAnalysis.primaryKeywordDensity\<close> after a call\<close>
  "reported_density st =
     map_option (\<lambda>r. primaryKeywordDensity (r_keywordAnalysis r)) (analysisResults st)"

definition phrase_windows :: "string list \<Rightarrow> string list \<Rightarrow> nat" where
  \<comment> \<open>a notion for stating properties, not a function of the source: the number of
      windows of the partial-match loop whose tokens are the words of the keyword\<close>
  "phrase_windows keywordWords ws =
     length (filter (\<lambda>i. take (length keywordWords) (drop i ws) = keywordWords)
               [0 ..< length ws + 1 - length keywordWords])"

section \<open>Example inputs\<close>

definition with_inputs :: "string \<Rightarrow> string \<Rightarrow> string \<Rightarrow> analyzer" where
  \<comment> \<open>a fresh analyzer whose three inputs have been set\<close>
  "with_inputs c kw meta = initial\<lparr>content := c, targetKeyword := kw, metaDescription := meta\<rparr>"

definition rejecting :: regexp_engine where
  \<comment> \<open>an engine that rejects every pattern it is asked about; the examples that name it
      have keywords whose patterns are built here, so that no engine is asked\<close>
  "rejecting kws text = Inl SyntaxError"

definition doc201 :: string where
  \<comment> \<open>201 words: the keyword once, then 200 times the word \<open>a\<close>\<close>
  "doc201 = ''cat'' @ concat (replicate 200 '' a'')"

definition ws_ex :: wordStats where
  "ws_ex = \<lparr>words = 2000, characters = 12000, sentences = 125, paragraphs = 20,
            readingTime = 9.2\<rparr>"

definition rs_ex :: readabilityScores where
  "rs_ex = \<lparr>fleschEase = 65, fleschKincaid = 7.5, smogIndex = 8,
            fleschEaseGrade = ''Standard (8th-9th grade)'', fleschKincaidGrade = ''8th grade'',
            smogGrade = ''8th grade''\<rparr>"

definition ka_ex :: keywordAnalysis where
  "ka_ex = \<lparr>primaryKeywordDensity = 1.2, primaryKeywordCount = 24, optimalRange = ''0.5-2%'',
            status = ''Optimal keyword density'', topKeywordsLength = 10,
            semanticKeywords = []\<rparr>"

definition hs_ex :: headingStructure where
  "hs_ex = \<lparr>totalHeadings = 5, headings = [], headingCounts = (\<lambda>l. 0), hasH1 = True,
            multipleH1 = False, structureScore = 100, issues = [], headingCount = 5,
            h1Text = ''All about cats''\<rparr>"

section \<open>Properties\<close>

subsection \<open>Helper facts\<close>

lemma trim_length:
  "length (trim c) + length (takeWhile is_space c)
     + length (takeWhile is_space (rev (dropWhile is_space c))) = length c"
proof -
  have a: "length (takeWhile is_space c) + length (dropWhile is_space c) = length c"
    by (metis length_append takeWhile_dropWhile_id)
  have b: "length (takeWhile is_space (rev (dropWhile is_space c)))
           + length (dropWhile is_space (rev (dropWhile is_space c)))
           = length (dropWhile is_space c)"
    by (metis length_append length_rev takeWhile_dropWhile_id)
  show ?thesis using a b by (simp add: trim_def)
qed

lemma js_round_mono: "x \<le> y \<Longrightarrow> js_round x \<le> js_round y"
  unfolding js_round_def by (intro floor_mono) simp

lemma reading_time_mono: "m \<le> n \<Longrightarrow> reading_time m \<le> reading_time n"
  unfolding reading_time_def
  by (intro divide_right_mono iffD2 [OF of_int_le_iff] js_round_mono)
     (simp_all add: divide_right_mono)

lemma ms_text:
  "(b', a', g') \<in> set (ms r (b, a, g)) \<Longrightarrow> rev b' @ a' = rev b @ a"
proof (induction r arbitrary: b a g b' a' g')
  case (Atom p)
  then show ?case by (auto split: list.splits if_splits)
next
  case (Rep lo hi p)
  then show ?case by (auto simp: Let_def)
next
  case (Cat r s)
  from Cat.prems obtain b1 a1 g1 where
    1: "(b1, a1, g1) \<in> set (ms r (b, a, g))" and 2: "(b', a', g') \<in> set (ms s (b1, a1, g1))"
    by auto
  from Cat.IH(1) [OF 1] Cat.IH(2) [OF 2] show ?case by simp
qed (auto split: if_splits)

lemma exec_at_text:
  assumes "exec_at r b a = Some (m, b', a')"
  shows "rev b' @ a' = rev b @ a" and "m_index m = length b"
proof -
  from assms obtain g rest where e: "ms r (b, a, []) = (b', a', g) # rest"
    and m: "m_index m = length b"
    by (auto simp: exec_at_def split: list.splits)
  then have "(b', a', g) \<in> set (ms r (b, a, []))" by simp
  then show "rev b' @ a' = rev b @ a" by (rule ms_text)
  show "m_index m = length b" by (rule m)
qed

lemma matchAll_from_indices:
  "sorted_wrt (<) (map m_index (matchAll_from r b a))
   \<and> list_all (\<lambda>m. length b \<le> m_index m) (matchAll_from r b a)"
proof (induction r b a rule: matchAll_from.induct)
  case (1 r b)
  then show ?case by (auto simp: exec_at_text split: option.splits)
next
  case (2 r b c cs)
  show ?case
  proof (cases "exec_at r b (c # cs)")
    case None
    with 2(1) show ?thesis by (auto simp: list_all_iff)
  next
    case (Some t)
    obtain m b' a' where t: "t = (m, b', a')" by (cases t)
    from Some t have e: "exec_at r b (c # cs) = Some (m, b', a')" by simp
    have len: "length b' + length a' = length b + length (c # cs)"
      using exec_at_text(1) [OF e] by (metis length_append length_rev)
    have idx: "m_index m = length b" using exec_at_text(2) [OF e] .
    show ?thesis
    proof (cases "length a' < length (c # cs)")
      case True
      with len have "length b < length b'" by simp
      with 2(2) [OF e refl refl True] idx e True show ?thesis
        by (auto simp: list_all_iff)
    next
      case False
      with 2(3) [OF e refl refl False] idx e show ?thesis
        by (auto simp: list_all_iff)
    qed
  qed
qed

lemma matchAll_sorted: "sorted_wrt (<) (map m_index (matchAll r s))"
  using matchAll_from_indices [of r "[]" s] by (simp add: matchAll_def)

lemma js_round_nonneg: "0 \<le> x \<Longrightarrow> 0 \<le> js_round x"
  by (simp add: js_round_def)

lemma js_round_of_int: "js_round (real_of_int i) = i"
  by (simp add: js_round_def)

lemma content_quality_bounds:
  "0 \<le> calculateContentQualityScore ws ka \<and> calculateContentQualityScore ws ka \<le> 100"
proof
  show "0 \<le> calculateContentQualityScore ws ka"
    unfolding calculateContentQualityScore_def Let_def
    by (intro min.boundedI add_nonneg_nonneg) simp_all
  show "calculateContentQualityScore ws ka \<le> 100"
    unfolding calculateContentQualityScore_def Let_def by (rule min.cobounded1)
qed

lemma technical_bounds:
  "0 \<le> calculateTechnicalSEOScore st hs ka \<and> calculateTechnicalSEOScore st hs ka \<le> 100"
proof
  show "0 \<le> calculateTechnicalSEOScore st hs ka"
    unfolding calculateTechnicalSEOScore_def Let_def
    by (intro min.boundedI add_nonneg_nonneg js_round_nonneg) simp_all
  show "calculateTechnicalSEOScore st hs ka \<le> 100"
    unfolding calculateTechnicalSEOScore_def Let_def by (rule min.cobounded1)
qed

lemma readability_bounds:
  "0 \<le> calculateReadabilityScore rs \<and> calculateReadabilityScore rs \<le> 100"
proof
  show "0 \<le> calculateReadabilityScore rs"
    unfolding calculateReadabilityScore_def Let_def
    by (intro min.boundedI add_nonneg_nonneg) simp_all
  show "calculateReadabilityScore rs \<le> 100"
    unfolding calculateReadabilityScore_def Let_def by (rule min.cobounded1)
qed

lemma user_experience_bounds:
  "0 \<le> calculateUserExperienceScore ws \<and> calculateUserExperienceScore ws \<le> 100"
proof
  show "0 \<le> calculateUserExperienceScore ws"
    unfolding calculateUserExperienceScore_def Let_def
    by (intro min.boundedI add_nonneg_nonneg) simp_all
  show "calculateUserExperienceScore ws \<le> 100"
    unfolding calculateUserExperienceScore_def Let_def by (rule min.cobounded1)
qed

lemma scale_up:
  "k \<le> fuel \<Longrightarrow> 2 ^ 52 \<le> x * 2 ^ k \<Longrightarrow> x * 2 ^ k < 2 ^ 53 \<Longrightarrow> int k \<le> 1074 + e
   \<Longrightarrow> scale fuel x e = (x * 2 ^ k, e - int k)"
proof (induction k arbitrary: fuel x e)
  case 0
  then show ?case by (cases fuel) simp_all
next
  case (Suc k)
  then obtain f where f: "fuel = Suc f" by (cases fuel) auto
  have pos: "0 < x"
  proof (rule ccontr)
    assume "\<not> 0 < x"
    then have "x * 2 ^ Suc k \<le> 0" by (simp add: mult_le_0_iff)
    with Suc.prems(2) show False by simp
  qed
  have "(1::real) \<le> 2 ^ k" by simp
  then have "x * 2 \<le> x * 2 * 2 ^ k" using pos by simp
  also have "\<dots> < 2 ^ 53" using Suc.prems(3) by (simp add: mult.assoc mult.left_commute)
  finally have small: "x < 2 ^ 52" by simp
  have e: "- 1074 < e" using Suc.prems(4) by simp
  have "scale f (2 * x) (e - 1) = (2 * x * 2 ^ k, e - 1 - int k)"
    using Suc.prems f by (intro Suc.IH) (simp_all add: mult.assoc mult.left_commute)
  then show ?case using small e f by (simp add: mult.assoc mult.left_commute)
qed

text \<open>
  How a rounding is computed once the exponent is known: \<open>x\<close> is scaled by \<open>2^k\<close>
  into the range of the integers of 53 bits and rounded there.
\<close>

lemma fl_scaled:
  assumes "0 < x" and "k \<le> 1074" and "2 ^ 52 \<le> x * 2 ^ k" and "x * 2 ^ k < 2 ^ 53"
  shows "fl x = real_of_int (round_even (x * 2 ^ k)) / 2 ^ k"
proof -
  have "scale 1200 x 0 = (x * 2 ^ k, 0 - int k)"
    using assms by (intro scale_up) simp_all
  then show ?thesis using assms(1) by (simp add: fl_def fl_pos_def pow2_def)
qed

lemma scale_nonneg: "0 \<le> x \<Longrightarrow> 0 \<le> fst (scale k x e)"
  by (induction k arbitrary: x e) auto

lemma round_even_nonneg: "0 \<le> x \<Longrightarrow> 0 \<le> round_even x"
  by (auto simp: round_even_def Let_def)

lemma fl_nonneg: "0 \<le> x \<Longrightarrow> 0 \<le> fl x"
proof -
  assume x: "0 \<le> x"
  obtain m e where s: "scale 1200 x 0 = (m, e)" by (cases "scale 1200 x 0")
  with scale_nonneg [OF x, of 1200 0] have "0 \<le> m" by simp
  moreover have "0 < pow2 e" by (simp add: pow2_def)
  ultimately have "0 \<le> real_of_int (round_even m) * pow2 e"
    using round_even_nonneg [of m] by (simp add: less_imp_le)
  then show ?thesis using x s by (simp add: fl_def fl_pos_def)
qed

lemma fl_values:
  "fl 1 = 1" "fl 100 = 100" "fl 10000 = 10000"
  "fl (1 / 4) = 1 / 4" "fl 25 = 25" "fl 2500 = 2500"
  "fl (3 / 4) = 3 / 4" "fl 75 = 75" "fl 7500 = 7500"
  "fl (1 / 2) = 1 / 2"
  by (subst fl_scaled [where k = 52], simp_all add: round_even_def Let_def)
     (subst fl_scaled [where k = 46], simp_all add: round_even_def Let_def,
      subst fl_scaled [where k = 39], simp_all add: round_even_def Let_def,
      subst fl_scaled [where k = 54], simp_all add: round_even_def Let_def,
      subst fl_scaled [where k = 48], simp_all add: round_even_def Let_def,
      subst fl_scaled [where k = 41], simp_all add: round_even_def Let_def,
      subst fl_scaled [where k = 53], simp_all add: round_even_def Let_def,
      subst fl_scaled [where k = 46], simp_all add: round_even_def Let_def,
      subst fl_scaled [where k = 40], simp_all add: round_even_def Let_def,
      subst fl_scaled [where k = 53], simp_all add: round_even_def Let_def)

lemma density_values:
  "round2 (keyword_density 1 1) = 100" "round2 (keyword_density 1 4) = 25"
  "round2 (keyword_density 3 4) = 75" "keyword_density 3 4 = 75"
  by (simp_all add: keyword_density_def round2_def js_round_def fl_values)

text \<open>
  One occurrence in 201 words: the density is below 0.5 and is reported as 0.5.
  23 occurrences in 160 words: the product is rounded down, and the density is reported
  as 14.37.
\<close>

lemma density_1_of_201:
  "keyword_density 1 201 = 8962387318150241 / 2 ^ 54"
  "round2 (keyword_density 1 201) = 1 / 2"
proof -
  have a: "fl (1 / 201) = 5735927883616154 / 2 ^ 60"
    by (subst fl_scaled [where k = 60]) (simp_all add: round_even_def Let_def)
  have b: "fl (5735927883616154 / 2 ^ 60 * 100) = 8962387318150241 / 2 ^ 54"
    by (subst fl_scaled [where k = 54]) (simp_all add: round_even_def Let_def)
  have "keyword_density 1 201 = fl (fl (1 / 201) * 100)"
    by (simp add: keyword_density_def)
  also have "\<dots> = 8962387318150241 / 2 ^ 54" unfolding a by (rule b)
  finally show d: "keyword_density 1 201 = 8962387318150241 / 2 ^ 54" .
  have c: "fl (8962387318150241 / 2 ^ 54 * 100) = 7001865092304876 / 2 ^ 47"
    by (subst fl_scaled [where k = 47]) (simp_all add: round_even_def Let_def)
  have "js_round (7001865092304876 / 2 ^ 47) = 50" by (simp add: js_round_def)
  then show "round2 (keyword_density 1 201) = 1 / 2"
    unfolding round2_def d c by (simp add: fl_values)
qed

lemma density_23_of_160:
  "js_round (fl (keyword_density 23 160 * 100)) = 1437"
  "js_round (real 23 / real 160 * 100 * 100) = 1438"
proof -
  have a: "fl (23 / 160) = 5179139571476070 / 2 ^ 55"
    by (subst fl_scaled [where k = 55]) (simp_all add: round_even_def Let_def)
  have b: "fl (5179139571476070 / 2 ^ 55 * 100) = 8092405580431359 / 2 ^ 49"
    by (subst fl_scaled [where k = 49]) (simp_all add: round_even_def Let_def)
  have "keyword_density 23 160 = fl (fl (23 / 160) * 100)"
    by (simp add: keyword_density_def)
  also have "\<dots> = 8092405580431359 / 2 ^ 49" unfolding a by (rule b)
  finally have d: "keyword_density 23 160 = 8092405580431359 / 2 ^ 49" .
  have c: "fl (8092405580431359 / 2 ^ 49 * 100) = 6322191859711999 / 2 ^ 42"
    by (subst fl_scaled [where k = 42]) (simp_all add: round_even_def Let_def)
  show "js_round (fl (keyword_density 23 160 * 100)) = 1437"
    unfolding d c by (simp add: js_round_def)
  show "js_round (real 23 / real 160 * 100 * 100) = 1438"
    by (simp add: js_round_def)
qed

lemma trim_hd:
  assumes "trim s \<noteq> []"
  shows "\<not> is_space (hd (trim s))"
proof -
  let ?ys = "dropWhile is_space s"
  have t: "trim s = rev (dropWhile is_space (rev ?ys))" by (simp add: trim_def)
  have "rev ?ys = takeWhile is_space (rev ?ys) @ dropWhile is_space (rev ?ys)" by simp
  then have "rev (rev ?ys) = rev (takeWhile is_space (rev ?ys) @ dropWhile is_space (rev ?ys))"
    by simp
  then have ys: "?ys = trim s @ rev (takeWhile is_space (rev ?ys))"
    unfolding t by (simp only: rev_append rev_rev_ident)
  with assms have "?ys \<noteq> []" by (metis Nil_is_append_conv)
  then have "\<not> is_space (hd ?ys)" by (rule hd_dropWhile)
  moreover have "hd ?ys = hd (trim s)" using ys assms by (metis hd_append2)
  ultimately show ?thesis by simp
qed

lemma split_from_piece:
  "piece \<noteq> [] \<Longrightarrow> \<exists>w ws. split_from r b piece a = w # ws \<and> w \<noteq> []"
  by (induction r b piece a rule: split_from.induct) (auto split: option.splits)

lemma count_words_pos:
  assumes "s \<noteq> []" and "\<not> is_space (hd s)"
  shows "0 < count_words s"
proof -
  obtain c cs where s: "s = c # cs" using assms(1) by (cases s) auto
  with assms(2) have c: "\<not> is_space c" by simp
  then have "exec_at re_spaces [] (c # cs) = None"
    by (simp add: exec_at_def re_spaces_def)
  then have "split_re re_spaces s = split_from re_spaces [c] [c] cs"
    by (simp add: split_re_def s)
  moreover obtain w ws where "split_from re_spaces [c] [c] cs = w # ws" and "w \<noteq> []"
    using split_from_piece [of "[c]" re_spaces "[c]" cs] by auto
  ultimately show ?thesis by (simp add: count_words_def nonempty_def)
qed

lemma analyzeKeywords_density:
  assumes c: "trim (content st) \<noteq> []" and k: "trim (targetKeyword st) \<noteq> []"
    and n: "countPrimaryKeyword rx (content st) (targetKeyword st) = Inr n"
    and t: "0 < totalWords st"
  shows "analyzeKeywords rx st =
           Inr \<lparr>primaryKeywordDensity = round2 (keyword_density n (totalWords st)),
                primaryKeywordCount = n, optimalRange = ''0.5-2%'',
                status = density_status (keyword_density n (totalWords st)),
                topKeywordsLength = extractTopKeywordsLength (cleanedWords (content st)),
                semanticKeywords = extractSemanticKeywords st\<rparr>"
  using c k n t by (simp add: analyzeKeywords_def Let_def)

lemma updateAnalysis_step:
  assumes "trim (content st) \<noteq> []" and "analyzeKeywords rx st = Inr ka"
  shows "updateAnalysis rx st now =
           st\<lparr>analysisResults :=
                Some \<lparr>r_wordStats = calculateWordStats (content st),
                      r_readabilityScores = calculateReadabilityScores (content st),
                      r_keywordAnalysis = ka,
                      r_headingStructure = analyzeHeadingStructure (content st),
                      r_seoScore = calculateSEOScore st (calculateWordStats (content st))
                                     (calculateReadabilityScores (content st)) ka
                                     (analyzeHeadingStructure (content st)),
                      r_timestamp = now\<rparr>\<rparr>"
  using assms by (simp add: updateAnalysis_def Let_def)

text \<open>
  Where a keyword is one word, or its pattern is built here, the count does not depend
  on the pattern engine.
\<close>

lemma countPrimaryKeyword_engine_free:
  assumes "length (keywordWords_of kw) = 1 \<or> phraseRegex (keywordWords_of kw) \<noteq> None"
  shows "countPrimaryKeyword rx c kw = countPrimaryKeyword rx' c kw"
  using assms by (auto simp: countPrimaryKeyword_def Let_def)

text \<open>
  The analysis of the keywords fails only where the pattern engine does: for a keyword of
  several words whose pattern is not built here and on which the engine throws.
\<close>

lemma analyzeKeywords_throws:
  assumes "analyzeKeywords rx st = Inl e"
  shows "length (keywordWords_of (targetKeyword st)) \<noteq> 1
         \<and> phraseRegex (keywordWords_of (targetKeyword st)) = None
         \<and> rx (keywordWords_of (targetKeyword st)) (normalize (toLowerCase (content st))) = Inl e"
  using assms
  by (auto simp: analyzeKeywords_def countPrimaryKeyword_def Let_def
           split: if_splits sum.splits option.splits)

lemma is_infix_refl: "is_infix w w"
  by (cases w) simp_all

lemma exact_window_passes: "window_matches kws kws"
proof -
  have "word_matches kws w" if "w \<in> set kws" for w
    unfolding word_matches_def list_ex_iff using that is_infix_refl by blast
  then have "filter (word_matches kws) kws = kws"
    by (simp add: filter_True)
  moreover have "\<lceil>real (length kws) * 0.7\<rceil> \<le> int (length kws)"
    by (rule ceiling_le) simp
  ultimately show ?thesis by (simp add: window_matches_def)
qed

lemma length_filter_mono:
  "(\<And>x. x \<in> set xs \<Longrightarrow> P x \<Longrightarrow> Q x) \<Longrightarrow> length (filter P xs) \<le> length (filter Q xs)"
  by (induction xs) auto

text \<open>
  Every window that holds the words of the keyword passes the partial-match test, so
  the partial matches are at least as many as these windows.
\<close>

lemma phrase_windows_le_partialMatches:
  "phrase_windows kws ws \<le> partialMatches kws ws"
  unfolding phrase_windows_def partialMatches_def
  by (rule length_filter_mono) (simp add: exact_window_passes)

subsection \<open>Character count\<close>

text \<open>
  C5, as the source has it: \<open>calculateWordStats\<close> trims the content first and counts the
  characters of the trimmed text. The \<open>characters\<close> field is the length of the input
  without its leading and trailing whitespace; whitespace inside the text is counted.
\<close>

theorem characters_is_trimmed_length:
  "characters (calculateWordStats c) = length (trim c)
   \<and> length (trim c) + length (takeWhile is_space c)
       + length (takeWhile is_space (rev (dropWhile is_space c))) = length c"
  using trim_length [of c] by (simp add: calculateWordStats_def Let_def)

text \<open>An instance: two words between a leading and a trailing space.\<close>

theorem characters_is_trimmed_length_witness:
  "characters (calculateWordStats '' a b '') = 3 \<and> length '' a b '' = 5"
proof -
  have "length (trim '' a b '') = 3" by code_simp
  then show ?thesis using characters_is_trimmed_length [of "'' a b ''"] by simp
qed

text \<open>
  C5 as the specification words it (the length of the raw input, leading and trailing
  whitespace included) fails on the three characters space, a, space.
\<close>

theorem characters_raw_length_counterexample:
  "characters (calculateWordStats '' a '') \<noteq> length '' a ''"
  by code_simp

subsection \<open>Reading time\<close>

text \<open>
  C7, as the source has it: the reading time is
  \<open>Math.round((words / 238) * 1.1 * 10) / 10\<close>, it never decreases when the word count
  grows, 238 words give 1.1 minutes and 2380 words give 11 minutes.
\<close>

theorem reading_time_monotone:
  "readingTime (calculateWordStats c) = reading_time (words (calculateWordStats c))
   \<and> (m \<le> n \<longrightarrow> reading_time m \<le> reading_time n)
   \<and> reading_time 238 = 11 / 10 \<and> reading_time 2380 = 11"
proof -
  have "reading_time 0 = 0" by (simp add: reading_time_def js_round_def)
  then have "readingTime (calculateWordStats c) = reading_time (words (calculateWordStats c))"
    by (simp add: calculateWordStats_def Let_def)
  moreover have "reading_time 238 = 11 / 10" "reading_time 2380 = 11"
    by (simp_all add: reading_time_def js_round_def)
  ultimately show ?thesis using reading_time_mono by blast
qed

text \<open>An instance: 100 words against 1000 words.\<close>

theorem reading_time_monotone_witness:
  "(100 :: nat) \<le> 1000 \<and> reading_time 100 \<le> reading_time 1000"
  using reading_time_monotone [of "[]" 100 1000] by simp

text \<open>C7 as the specification words it gives 1.0 minutes for 238 words; the source gives 1.1.\<close>

theorem reading_time_238_counterexample: "reading_time 238 \<noteq> 1"
  by (simp add: reading_time_def js_round_def)

subsection \<open>Syllable floor\<close>

text \<open>
  C9: a non-empty word of lowercase letters has at least one syllable, and a word of at
  most three letters has exactly one, whatever its ending: the length test is made on the
  word before the suffix is removed.
\<close>

theorem syllable_floor:
  assumes "w \<noteq> []" and "list_all is_lower_az w"
  shows "1 \<le> countWordSyllables w \<and> (length w \<le> 3 \<longrightarrow> countWordSyllables w = 1)"
proof -
  have f: "filter is_lower_az w = w" using assms(2) by (simp add: list_all_iff)
  have "lower_char c = c" if "is_lower_az c" for c
    using that by (simp add: lower_char_def is_lower_az_def Let_def)
  then have "toLowerCase w = w" using assms(2)
    by (simp add: toLowerCase_def list_all_iff map_idI)
  then show ?thesis using assms(1) f by (simp add: countWordSyllables_def Let_def)
qed

text \<open>An instance: a three-letter word that ends in the suffix \<open>ed\<close>.\<close>

theorem syllable_floor_witness:
  "''bed'' \<noteq> [] \<and> list_all is_lower_az ''bed'' \<and> length ''bed'' \<le> 3 \<and>
   1 \<le> countWordSyllables ''bed'' \<and> countWordSyllables ''bed'' = 1"
proof -
  have h: "list_all is_lower_az ''bed''" by code_simp
  show ?thesis using h syllable_floor [of "''bed''"] by simp
qed

subsection \<open>Readability guard\<close>

text \<open>
  C6, as the source has it: when the word count or the sentence count is 0, the three
  scores are 0 and the three labels are \<open>N/A\<close>; when both are positive and the syllable
  count is 0, the three scores are 0 and the three labels are \<open>No text to analyze\<close>.
  Both cases return before any quotient is formed.
\<close>

theorem readability_guard:
  "(words (calculateWordStats c) = 0 \<or> sentences (calculateWordStats c) = 0 \<longrightarrow>
      calculateReadabilityScores c = zero_scores ''N/A'')
   \<and> (0 < words (calculateWordStats c) \<and> 0 < sentences (calculateWordStats c)
        \<and> countSyllables c = 0 \<longrightarrow>
      calculateReadabilityScores c = zero_scores ''No text to analyze'')"
  by (simp add: calculateReadabilityScores_def Let_def)

text \<open>Instances: three full stops have no sentence; the token 123 has no syllable.\<close>

theorem readability_guard_witness:
  "sentences (calculateWordStats ''...'') = 0
   \<and> calculateReadabilityScores ''...'' = zero_scores ''N/A''
   \<and> 0 < words (calculateWordStats ''123'') \<and> 0 < sentences (calculateWordStats ''123'')
   \<and> countSyllables ''123'' = 0
   \<and> calculateReadabilityScores ''123'' = zero_scores ''No text to analyze''"
proof -
  have a: "sentences (calculateWordStats ''...'') = 0" by code_simp
  have b: "0 < words (calculateWordStats ''123'')" by code_simp
  have c: "0 < sentences (calculateWordStats ''123'')" by code_simp
  have d: "countSyllables ''123'' = 0" by code_simp
  show ?thesis
    using a b c d readability_guard [of "''...''"] readability_guard [of "''123''"] by simp
qed

text \<open>
  C6 as the specification words it (the label \<open>N/A\<close> also when only the syllable count
  is 0) fails on the content 123.
\<close>

theorem readability_guard_counterexample:
  "countSyllables ''123'' = 0
   \<and> fleschEaseGrade (calculateReadabilityScores ''123'') \<noteq> ''N/A''
   \<and> fleschKincaidGrade (calculateReadabilityScores ''123'') \<noteq> ''N/A''
   \<and> smogGrade (calculateReadabilityScores ''123'') \<noteq> ''N/A''"
proof -
  have b: "0 < words (calculateWordStats ''123'')" by code_simp
  have c: "0 < sentences (calculateWordStats ''123'')" by code_simp
  have d: "countSyllables ''123'' = 0" by code_simp
  show ?thesis using b c d
    by (simp add: calculateReadabilityScores_def Let_def zero_scores_def)
qed

subsection \<open>Heading structure\<close>

text \<open>
  C4, as the source has it: for the content \<open>## Section\<close> the structure score is 60 and
  the issues are the missing H1 and a hierarchy issue. The hierarchy scan starts from the
  level 0, so a first heading of level 2 or more is itself a violation and costs 10 points
  on top of the 30 points of the missing H1.
\<close>

theorem missing_h1_scenario:
  "structureScore (analyzeHeadingStructure ''## Section'') = 60
   \<and> issues (analyzeHeadingStructure ''## Section'')
       = [''Missing H1 tag'', ''Heading hierarchy issues detected'']
   \<and> headings (analyzeHeadingStructure ''## Section'')
       = [\<lparr>h_level = 2, h_text = ''Section''\<rparr>]"
  by code_simp

text \<open>The issue list of that content does hold the missing-H1 entry.\<close>

theorem missing_h1_scenario_witness:
  "''Missing H1 tag'' \<in> set (issues (analyzeHeadingStructure ''## Section''))"
  using missing_h1_scenario by simp

text \<open>C4 as the specification words it gives the score 70.\<close>

theorem missing_h1_scenario_counterexample:
  "structureScore (analyzeHeadingStructure ''## Section'') \<noteq> 70"
  by code_simp

text \<open>
  C8, as the source has it: the heading list is the markdown headings in the order of
  their positions, followed by the markup headings in the order of their positions, and
  the hierarchy scan that the structure score uses runs over the list in that order.
\<close>

theorem headings_order:
  "headings (analyzeHeadingStructure c)
     = map heading_of (matchAll re_markdown c) @ map heading_of (matchAll re_html c)
   \<and> sorted_wrt (<) (map m_index (matchAll re_markdown c))
   \<and> sorted_wrt (<) (map m_index (matchAll re_html c))
   \<and> structureScore (analyzeHeadingStructure c)
       = max 0 (100 - (if hasH1 (analyzeHeadingStructure c) then 0 else 30)
                    - (if multipleH1 (analyzeHeadingStructure c) then 20 else 0)
                    - 10 * int (hierarchy (headings (analyzeHeadingStructure c)) 0 0))"
proof -
  have "headings (analyzeHeadingStructure c)
     = map heading_of (matchAll re_markdown c) @ map heading_of (matchAll re_html c)"
    by (simp add: analyzeHeadingStructure_def headingMatches_def Let_def)
  moreover have "structureScore (analyzeHeadingStructure c)
       = max 0 (100 - (if hasH1 (analyzeHeadingStructure c) then 0 else 30)
                    - (if multipleH1 (analyzeHeadingStructure c) then 20 else 0)
                    - 10 * int (hierarchy (headings (analyzeHeadingStructure c)) 0 0))"
    by (simp add: analyzeHeadingStructure_def Let_def mult.commute)
  ultimately show ?thesis using matchAll_sorted by blast
qed

text \<open>
  An instance: a markup heading between two markdown headings comes last in the list.
\<close>

theorem headings_order_witness:
  "headings (analyzeHeadingStructure ''# T\<newline><h2>A</h2>\<newline>## B'')
     = [\<lparr>h_level = 1, h_text = ''T''\<rparr>, \<lparr>h_level = 2, h_text = ''B''\<rparr>,
        \<lparr>h_level = 2, h_text = ''A''\<rparr>]
   \<and> map m_index (matchAll re_markdown ''# T\<newline><h2>A</h2>\<newline>## B'') = [0, 15]
   \<and> map m_index (matchAll re_html ''# T\<newline><h2>A</h2>\<newline>## B'') = [4]"
proof -
  have a: "map heading_of (matchAll re_markdown ''# T\<newline><h2>A</h2>\<newline>## B'')
           = [\<lparr>h_level = 1, h_text = ''T''\<rparr>, \<lparr>h_level = 2, h_text = ''B''\<rparr>]"
    by code_simp
  have b: "map heading_of (matchAll re_html ''# T\<newline><h2>A</h2>\<newline>## B'')
           = [\<lparr>h_level = 2, h_text = ''A''\<rparr>]"
    by code_simp
  have c: "map m_index (matchAll re_markdown ''# T\<newline><h2>A</h2>\<newline>## B'') = [0, 15]"
    by code_simp
  have d: "map m_index (matchAll re_html ''# T\<newline><h2>A</h2>\<newline>## B'') = [4]"
    by code_simp
  show ?thesis
    using a b c d headings_order [of "''# T\<newline><h2>A</h2>\<newline>## B''"] by simp
qed

text \<open>
  C8 as the specification words it (one document order across both syntaxes) fails on a
  markup H1 followed by a markdown H2: the list holds the H2 first, its positions are 11
  and 0, and the scan counts one violation where the document order has none.
\<close>

theorem headings_order_counterexample:
  "headings (analyzeHeadingStructure ''<h1>A</h1>\<newline>## B'')
     = [\<lparr>h_level = 2, h_text = ''B''\<rparr>, \<lparr>h_level = 1, h_text = ''A''\<rparr>]
   \<and> map m_index (headingMatches ''<h1>A</h1>\<newline>## B'') = [11, 0]
   \<and> \<not> sorted (map m_index (headingMatches ''<h1>A</h1>\<newline>## B''))
   \<and> hierarchy (headings (analyzeHeadingStructure ''<h1>A</h1>\<newline>## B'')) 0 0 = 1
   \<and> hierarchy [\<lparr>h_level = 1, h_text = ''A''\<rparr>, \<lparr>h_level = 2, h_text = ''B''\<rparr>] 0 0 = 0"
  by code_simp

subsection \<open>Composite score\<close>

text \<open>
  C2: the overall score is the rounded weighted sum of the four category scores (weights
  0.35, 0.30, 0.20, 0.15), clamped to the range from 0 to 100; each category score is
  already within 0 and 100 when it enters the sum, since every category function ends in
  \<open>Math.min(100, score)\<close> over a sum of non-negative band points; the reported
  category scores are these values.
\<close>

theorem composite_score:
  fixes st ws rs ka hs
  defines "cq \<equiv> calculateContentQualityScore ws ka"
    and "tech \<equiv> calculateTechnicalSEOScore st hs ka"
    and "rd \<equiv> calculateReadabilityScore rs"
    and "ux \<equiv> calculateUserExperienceScore ws"
  shows "overall (calculateSEOScore st ws rs ka hs)
           = min 100 (max 0 (js_round (real_of_int cq * 0.35 + real_of_int tech * 0.30
                                       + real_of_int rd * 0.20 + real_of_int ux * 0.15)))
         \<and> 0 \<le> cq \<and> cq \<le> 100 \<and> 0 \<le> tech \<and> tech \<le> 100
         \<and> 0 \<le> rd \<and> rd \<le> 100 \<and> 0 \<le> ux \<and> ux \<le> 100
         \<and> contentQuality (calculateSEOScore st ws rs ka hs) = cq
         \<and> technicalSEO (calculateSEOScore st ws rs ka hs) = tech
         \<and> readability (calculateSEOScore st ws rs ka hs) = rd
         \<and> userExperience (calculateSEOScore st ws rs ka hs) = ux"
  using content_quality_bounds [of ws ka] technical_bounds [of st hs ka]
    readability_bounds [of rs] user_experience_bounds [of ws]
  unfolding cq_def tech_def rd_def ux_def
  by (simp add: calculateSEOScore_def Let_def weighted_def js_round_of_int)

text \<open>An instance: the scores 77, 70, 100 and 100 give the overall score 83.\<close>

theorem composite_score_witness:
  "calculateContentQualityScore ws_ex ka_ex = 77
   \<and> calculateTechnicalSEOScore (with_inputs [] ''cats'' []) hs_ex ka_ex = 70
   \<and> calculateReadabilityScore rs_ex = 100
   \<and> calculateUserExperienceScore ws_ex = 100
   \<and> overall (calculateSEOScore (with_inputs [] ''cats'' []) ws_ex rs_ex ka_ex hs_ex) = 83"
proof -
  have a: "calculateContentQualityScore ws_ex ka_ex = 77"
    by (simp add: calculateContentQualityScore_def ws_ex_def ka_ex_def Let_def)
  have i: "is_infix (toLowerCase ''cats'') (toLowerCase ''All about cats'')"
    and t: "length (trim ''cats'') = 4"
    by code_simp+
  have b: "calculateTechnicalSEOScore (with_inputs [] ''cats'' []) hs_ex ka_ex = 70"
    using i t
    by (simp add: calculateTechnicalSEOScore_def with_inputs_def initial_def hs_ex_def
          ka_ex_def Let_def js_round_def)
  have c: "calculateReadabilityScore rs_ex = 100"
    by (simp add: calculateReadabilityScore_def rs_ex_def Let_def)
  have d: "calculateUserExperienceScore ws_ex = 100"
    by (simp add: calculateUserExperienceScore_def ws_ex_def Let_def)
  show ?thesis
    using a b c d composite_score [of "with_inputs [] ''cats'' []" ws_ex rs_ex ka_ex hs_ex]
    by (simp add: js_round_def)
qed

subsection \<open>Keyword status\<close>

text \<open>
  C3, as the source has it: for non-blank content and a non-blank target keyword on which
  the analysis of the keywords returns, the status follows the bands of the density
  \<open>d = (primaryKeywordCount / totalWords) * 100\<close> as the source computes it in binary64
  before rounding it to two decimals, where \<open>totalWords\<close> is the divisor that
  \<open>analyzeKeywords\<close> uses (the word count that the previous analysis stored when there
  is one other than 0, the word count of the current content otherwise). The reported
  \<open>primaryKeywordDensity\<close> is \<open>Math.round(d * 100) / 100\<close>, so it does not decide the
  status. This holds whatever the pattern engine does with a keyword of several words.
\<close>

theorem keyword_status_bands:
  assumes "trim (content st) \<noteq> []" and "trim (targetKeyword st) \<noteq> []"
    and "analyzeKeywords rx st = Inr ka"
    and "d = keyword_density (primaryKeywordCount ka) (totalWords st)"
  shows "primaryKeywordDensity ka = round2 d
         \<and> 0 \<le> d
         \<and> (d = 0 \<longrightarrow> status ka = ''Keyword not found in content'')
         \<and> (0 < d \<and> d < 0.5 \<longrightarrow> status ka = ''Keyword density too low'')
         \<and> (0.5 \<le> d \<and> d \<le> 2 \<longrightarrow> status ka = ''Optimal keyword density'')
         \<and> (2 < d \<and> d \<le> 3 \<longrightarrow> status ka = ''Keyword density slightly high'')
         \<and> (3 < d \<longrightarrow> status ka = ''Keyword density too high - risk of over-optimization'')"
proof -
  from assms(1-3) obtain n
    where n: "countPrimaryKeyword rx (content st) (targetKeyword st) = Inr n"
    by (auto simp: analyzeKeywords_def Let_def split: sum.splits)
  have t: "0 < totalWords st"
  proof -
    have "0 < count_words (trim (content st))"
      using assms(1) by (intro count_words_pos trim_hd)
    then show ?thesis by (auto simp: totalWords_def Let_def split: option.splits)
  qed
  have ka: "primaryKeywordCount ka = n" "primaryKeywordDensity ka = round2 d"
    "status ka = density_status d"
    using analyzeKeywords_density [OF assms(1,2) n t] assms(3,4) by auto
  have "0 \<le> d" unfolding assms(4) keyword_density_def
    by (intro fl_nonneg mult_nonneg_nonneg divide_nonneg_nonneg) simp_all
  then show ?thesis using ka by (auto simp: density_status_def)
qed

text \<open>
  An instance with pattern syntax in the keyword: the question mark of \<open>what? now\<close>
  makes the \<open>t\<close> optional; the pattern matches twice, three windows pass the
  partial-match test, the count is 3 of 4 words and the density is 75.
\<close>

theorem keyword_status_bands_witness:
  "trim (content (with_inputs ''what now what now'' ''what? now'' [])) \<noteq> []
   \<and> trim (targetKeyword (with_inputs ''what now what now'' ''what? now'' [])) \<noteq> []
   \<and> (\<exists>ka. analyzeKeywords rejecting (with_inputs ''what now what now'' ''what? now'' [])
              = Inr ka
           \<and> primaryKeywordCount ka = 3
           \<and> keyword_density (primaryKeywordCount ka)
                (totalWords (with_inputs ''what now what now'' ''what? now'' [])) = 75
           \<and> primaryKeywordDensity ka = 75
           \<and> status ka = ''Keyword density too high - risk of over-optimization'')"
proof -
  let ?st = "with_inputs ''what now what now'' ''what? now'' []"
  have c: "trim (content ?st) \<noteq> []" and k: "trim (targetKeyword ?st) \<noteq> []"
    and n: "countPrimaryKeyword rejecting (content ?st) (targetKeyword ?st) = Inr 3"
    and t: "totalWords ?st = 4"
    by code_simp+
  have t0: "0 < totalWords ?st" using t by simp
  note ka = analyzeKeywords_density [OF c k n t0]
  from keyword_status_bands [OF c k ka, of "keyword_density 3 4"] t density_values
  show ?thesis using c k ka by simp
qed

text \<open>
  C3 as the specification words it (the status read off the reported density, for every
  non-empty keyword) fails on a text of 201 words that holds the keyword once: the density
  before rounding is below 0.5, the status is the one for a density that is too low, and
  the reported density is 0.5. It also fails on a keyword of one space, which has the
  density 0 and a status of its own.
\<close>

theorem keyword_status_bands_counterexample:
  "map_sum id (\<lambda>ka. (primaryKeywordDensity ka, status ka))
     (analyzeKeywords rejecting (with_inputs doc201 ''cat'' []))
   = Inr (1 / 2, ''Keyword density too low'')
   \<and> map_sum id (\<lambda>ka. (primaryKeywordDensity ka, status ka))
       (analyzeKeywords rejecting (with_inputs ''cat'' '' '' []))
     = Inr (0, ''Enter target keyword for analysis'')"
proof -
  let ?st = "with_inputs doc201 ''cat'' []"
  have c: "trim (content ?st) \<noteq> []" and k: "trim (targetKeyword ?st) \<noteq> []"
    and n: "countPrimaryKeyword rejecting (content ?st) (targetKeyword ?st) = Inr 1"
    and t: "totalWords ?st = 201"
    by code_simp+
  have t0: "0 < totalWords ?st" using t by simp
  have low: "keyword_density 1 201 \<noteq> 0" "keyword_density 1 201 < 1 / 2"
    unfolding density_1_of_201(1) by simp_all
  have a: "map_sum id (\<lambda>ka. (primaryKeywordDensity ka, status ka))
             (analyzeKeywords rejecting ?st)
           = Inr (1 / 2, ''Keyword density too low'')"
    using analyzeKeywords_density [OF c k n t0] t low density_1_of_201(2)
    by (simp add: density_status_def)
  have b1: "trim ''cat'' \<noteq> []" and b2: "trim '' '' = []"
    by code_simp+
  have r0: "round2 0 = 0" by (simp add: round2_def js_round_def fl_def)
  have b: "map_sum id (\<lambda>ka. (primaryKeywordDensity ka, status ka))
             (analyzeKeywords rejecting (with_inputs ''cat'' '' '' []))
           = Inr (0, ''Enter target keyword for analysis'')"
    using b1 b2 r0 by (simp add: analyzeKeywords_def with_inputs_def initial_def Let_def)
  from a b show ?thesis by simp
qed

subsection \<open>Dependence on the previous analysis\<close>

text \<open>
  C1 at a concrete run. \<open>analyzeKeywords\<close> divides by the word count of the results that
  the previous call stored whenever that count is not 0, and by the word count of the
  current content only otherwise. The content \<open>cat\<close> with the keyword \<open>cat\<close> has the
  density 100 on a fresh analyzer, the density 25 on an analyzer that has analysed four
  words before, and the density 100 again when the same inputs are analysed once more.
  The keyword is one word, so no pattern is built and the run is the same for every
  pattern engine \<open>rx\<close>.
\<close>

theorem stale_word_count:
  "reported_density (analyze rx initial ''cat'' ''cat'' [] ''t1'') = Some 100
   \<and> reported_density
        (analyze rx (analyze rx initial ''one two three four'' ''cat'' [] ''t0'')
           ''cat'' ''cat'' [] ''t1'') = Some 25
   \<and> reported_density
        (analyze rx
           (analyze rx (analyze rx initial ''one two three four'' ''cat'' [] ''t0'')
              ''cat'' ''cat'' [] ''t1'')
           ''cat'' ''cat'' [] ''t2'') = Some 100"
proof -
  have c1: "trim ''cat'' \<noteq> []" and c0: "trim ''one two three four'' \<noteq> []"
    by code_simp+
  have n1: "countPrimaryKeyword rx ''cat'' ''cat'' = Inr 1"
    and n0: "countPrimaryKeyword rx ''one two three four'' ''cat'' = Inr 0"
    by code_simp+
  have w1: "count_words (trim ''cat'') = 1"
    and w0: "words (calculateWordStats ''one two three four'') = 4"
    and w2: "words (calculateWordStats ''cat'') = 1"
    and w3: "count_words (trim ''one two three four'') = 4"
    by code_simp+
  note r25 = density_values(2) and r100 = density_values(1)
  \<comment> \<open>the fresh analyzer\<close>
  let ?f = "initial\<lparr>content := ''cat'', targetKeyword := ''cat'', metaDescription := []\<rparr>"
  have tf: "totalWords ?f = 1" by (simp add: totalWords_def initial_def w1)
  have kf: "analyzeKeywords rx ?f =
      Inr \<lparr>primaryKeywordDensity = 100, primaryKeywordCount = 1, optimalRange = ''0.5-2%'',
           status = density_status (keyword_density 1 (totalWords ?f)),
           topKeywordsLength = extractTopKeywordsLength (cleanedWords (content ?f)),
           semanticKeywords = extractSemanticKeywords ?f\<rparr>"
    using analyzeKeywords_density [of ?f rx 1] c1 n1 tf r100 by simp
  from updateAnalysis_step [of ?f rx _ "''t1''"] c1 kf
  have fresh: "reported_density (analyze rx initial ''cat'' ''cat'' [] ''t1'') = Some 100"
    by (auto simp: analyze_def reported_density_def)
  \<comment> \<open>the first call on four words\<close>
  let ?p = "initial\<lparr>content := ''one two three four'', targetKeyword := ''cat'',
                     metaDescription := []\<rparr>"
  have tp: "totalWords ?p = 4" by (simp add: totalWords_def initial_def w3)
  have "analyzeKeywords rx ?p =
      Inr \<lparr>primaryKeywordDensity = round2 (keyword_density 0 (totalWords ?p)),
           primaryKeywordCount = 0, optimalRange = ''0.5-2%'',
           status = density_status (keyword_density 0 (totalWords ?p)),
           topKeywordsLength = extractTopKeywordsLength (cleanedWords (content ?p)),
           semanticKeywords = extractSemanticKeywords ?p\<rparr>"
    using analyzeKeywords_density [of ?p rx 0] c0 c1 n0 tp by simp
  from updateAnalysis_step [of ?p rx _ "''t0''", OF _ this] c0
  obtain r0 where r0: "updateAnalysis rx ?p ''t0'' = ?p\<lparr>analysisResults := Some r0\<rparr>"
    and rw0: "r_wordStats r0 = calculateWordStats ''one two three four''"
    by auto
  \<comment> \<open>the second call, on the analyzer that the first call left\<close>
  let ?s = "?p\<lparr>analysisResults := Some r0, content := ''cat'', targetKeyword := ''cat'',
               metaDescription := []\<rparr>"
  have ts: "totalWords ?s = 4" by (simp add: totalWords_def rw0 w0)
  have ks: "analyzeKeywords rx ?s =
      Inr \<lparr>primaryKeywordDensity = 25, primaryKeywordCount = 1, optimalRange = ''0.5-2%'',
           status = density_status (keyword_density 1 (totalWords ?s)),
           topKeywordsLength = extractTopKeywordsLength (cleanedWords (content ?s)),
           semanticKeywords = extractSemanticKeywords ?s\<rparr>"
    using analyzeKeywords_density [of ?s rx 1] c1 n1 ts r25 by simp
  from updateAnalysis_step [of ?s rx _ "''t1''", OF _ ks] c1
  obtain r1 where r1: "updateAnalysis rx ?s ''t1'' = ?s\<lparr>analysisResults := Some r1\<rparr>"
    and rw1: "r_wordStats r1 = calculateWordStats ''cat''"
    and rk1: "primaryKeywordDensity (r_keywordAnalysis r1) = 25"
    by auto
  have second: "analyze rx (analyze rx initial ''one two three four'' ''cat'' [] ''t0'')
           ''cat'' ''cat'' [] ''t1'' = ?s\<lparr>analysisResults := Some r1\<rparr>"
    using r0 r1 by (simp add: analyze_def)
  have stale: "reported_density
        (analyze rx (analyze rx initial ''one two three four'' ''cat'' [] ''t0'')
           ''cat'' ''cat'' [] ''t1'') = Some 25"
    using second rk1 by (simp add: reported_density_def)
  \<comment> \<open>the third call, on the same inputs as the second\<close>
  let ?u = "?s\<lparr>analysisResults := Some r1, content := ''cat'', targetKeyword := ''cat'',
               metaDescription := []\<rparr>"
  have tu: "totalWords ?u = 1" by (simp add: totalWords_def rw1 w2)
  have ku: "analyzeKeywords rx ?u =
      Inr \<lparr>primaryKeywordDensity = 100, primaryKeywordCount = 1, optimalRange = ''0.5-2%'',
           status = density_status (keyword_density 1 (totalWords ?u)),
           topKeywordsLength = extractTopKeywordsLength (cleanedWords (content ?u)),
           semanticKeywords = extractSemanticKeywords ?u\<rparr>"
    using analyzeKeywords_density [of ?u rx 1] c1 n1 tu r100 by simp
  from updateAnalysis_step [of ?u rx _ "''t2''", OF _ ku] c1
  have "reported_density (updateAnalysis rx ?u ''t2'') = Some 100"
    by (auto simp: reported_density_def)
  then have again: "reported_density
        (analyze rx
           (analyze rx (analyze rx initial ''one two three four'' ''cat'' [] ''t0'')
              ''cat'' ''cat'' [] ''t1'')
           ''cat'' ''cat'' [] ''t2'') = Some 100"
    unfolding second by (simp add: analyze_def)
  from fresh stale again show ?thesis by simp
qed

subsection \<open>Phrase keywords\<close>

text \<open>
  C10 at a concrete input. The words of the keyword go into the phrase pattern as they
  are, so the full stop of the keyword \<open>a.c x\<close> matches any character. In the content
  \<open>abc x abc x\<close> the pattern matches twice, although no window of tokens holds the
  words of the keyword; no window of two tokens passes the partial-match test, and the
  count is 2. The pattern of this keyword is built here, so the count is the same for
  every pattern engine \<open>rx\<close>.
\<close>

theorem unescaped_phrase_pattern:
  "countPrimaryKeyword rx ''abc x abc x'' ''a.c x'' = Inr 2
   \<and> map_option (\<lambda>r. exactMatches r (normalize (toLowerCase ''abc x abc x'')))
        (phraseRegex (keywordWords_of ''a.c x'')) = Some 2
   \<and> partialMatches (keywordWords_of ''a.c x'')
        (split_re re_spaces (normalize (toLowerCase ''abc x abc x''))) = 0
   \<and> phrase_windows (keywordWords_of ''a.c x'')
        (split_re re_spaces (normalize (toLowerCase ''abc x abc x''))) = 0"
proof -
  have "countPrimaryKeyword rx ''abc x abc x'' ''a.c x'' = Inr 2"
    and "map_option (\<lambda>r. exactMatches r (normalize (toLowerCase ''abc x abc x'')))
        (phraseRegex (keywordWords_of ''a.c x'')) = Some 2"
    and p: "partialMatches (keywordWords_of ''a.c x'')
        (split_re re_spaces (normalize (toLowerCase ''abc x abc x''))) = 0"
    by code_simp+
  moreover have "phrase_windows (keywordWords_of ''a.c x'')
        (split_re re_spaces (normalize (toLowerCase ''abc x abc x''))) = 0"
    using phrase_windows_le_partialMatches
      [of "keywordWords_of ''a.c x''"
          "split_re re_spaces (normalize (toLowerCase ''abc x abc x''))"] p
    by simp
  ultimately show ?thesis by simp
qed

end
